theory Spec2Isabelle
  imports Complex_Main "HOL-Library.Log_Nat"
begin

section \<open>ECMAScript Number values\<close>

text \<open>
  The accessory computes with ECMAScript Numbers: IEEE 754 binary64 values. A finite
  Number is represented by the rational it denotes; every arithmetic operation computes
  the exact rational result and rounds it to the nearest binary64 value, ties to the even
  significand, as the language prescribes. The two zeros are identified: no operation of
  the accessory tells them apart (\<open>-0 || 0\<close> is \<open>0\<close>, \<open>JSON.stringify(-0)\<close> is
  \<open>"0"\<close>).
\<close>

datatype number = Finite rat | NaN | PosInf | NegInf

definition exponent :: "rat \<Rightarrow> int" where
  \<comment> \<open>the binade of a nonzero rational: \<open>2 powi exponent r \<le> \<bar>r\<bar> < 2 powi (exponent r + 1)\<close>\<close>
  "exponent r =
     (if 1 \<le> \<bar>r\<bar> then bitlen \<lfloor>\<bar>r\<bar>\<rfloor> - 1
      else - bitlen (\<lceil>1 / \<bar>r\<bar>\<rceil> - 1))"

definition round_half_even :: "rat \<Rightarrow> int" where
  "round_half_even x =
     (let f = \<lfloor>x\<rfloor>; d = x - of_int f
      in if d < 1 / 2 then f
         else if 1 / 2 < d then f + 1
         else if even f then f else f + 1)"

definition grid_exponent :: "rat \<Rightarrow> int" where
  \<comment> \<open>below \<open>2 powi - 1022\<close> the subnormal values all have the least exponent\<close>
  "grid_exponent r = max (exponent r) (- 1022)"

definition round_to_grid :: "rat \<Rightarrow> rat" where
  \<comment> \<open>the nearest value with 53 significant bits, ties to the even significand\<close>
  "round_to_grid r =
     (if r = 0 then 0
      else let q = 2 powi (grid_exponent r - 52)
           in sgn r * (of_int (round_half_even (\<bar>r\<bar> / q)) * q))"

definition to_double :: "rat \<Rightarrow> number" where
  "to_double r =
     (let v = round_to_grid r
      in if 2 powi 1024 \<le> v then PosInf
         else if v \<le> - (2 powi 1024) then NegInf
         else Finite v)"

definition js_div :: "number \<Rightarrow> number \<Rightarrow> number" where
  \<comment> \<open>\<open>a / b\<close> (Number::divide); a zero divisor is taken as \<open>+0\<close>\<close>
  "js_div a b =
     (case a of
        NaN \<Rightarrow> NaN
      | PosInf \<Rightarrow>
          (case b of Finite y \<Rightarrow> (if 0 \<le> y then PosInf else NegInf) | _ \<Rightarrow> NaN)
      | NegInf \<Rightarrow>
          (case b of Finite y \<Rightarrow> (if 0 \<le> y then NegInf else PosInf) | _ \<Rightarrow> NaN)
      | Finite x \<Rightarrow>
          (case b of
             NaN \<Rightarrow> NaN
           | PosInf \<Rightarrow> Finite 0
           | NegInf \<Rightarrow> Finite 0
           | Finite y \<Rightarrow>
               (if y = 0 then (if x = 0 then NaN else if 0 < x then PosInf else NegInf)
                else to_double (x / y))))"

definition js_mul :: "number \<Rightarrow> number \<Rightarrow> number" where
  \<comment> \<open>\<open>a * b\<close> (Number::multiply)\<close>
  "js_mul a b =
     (case a of
        NaN \<Rightarrow> NaN
      | PosInf \<Rightarrow>
          (case b of
             NaN \<Rightarrow> NaN | PosInf \<Rightarrow> PosInf | NegInf \<Rightarrow> NegInf
           | Finite y \<Rightarrow> (if y = 0 then NaN else if 0 < y then PosInf else NegInf))
      | NegInf \<Rightarrow>
          (case b of
             NaN \<Rightarrow> NaN | PosInf \<Rightarrow> NegInf | NegInf \<Rightarrow> PosInf
           | Finite y \<Rightarrow> (if y = 0 then NaN else if 0 < y then NegInf else PosInf))
      | Finite x \<Rightarrow>
          (case b of
             NaN \<Rightarrow> NaN
           | PosInf \<Rightarrow> (if x = 0 then NaN else if 0 < x then PosInf else NegInf)
           | NegInf \<Rightarrow> (if x = 0 then NaN else if 0 < x then NegInf else PosInf)
           | Finite y \<Rightarrow> to_double (x * y)))"

definition Math_round :: "number \<Rightarrow> number" where
  \<comment> \<open>the closest integer, the one nearer to \<open>+\<infinity>\<close> when two are equally close\<close>
  "Math_round a = (case a of Finite x \<Rightarrow> Finite (of_int \<lfloor>x + 1 / 2\<rfloor>) | _ \<Rightarrow> a)"

definition js_le :: "number \<Rightarrow> number \<Rightarrow> bool" where
  \<comment> \<open>\<open>a <= b\<close>: false as soon as one side is \<open>NaN\<close>\<close>
  "js_le a b =
     (case a of
        NaN \<Rightarrow> False
      | NegInf \<Rightarrow> b \<noteq> NaN
      | PosInf \<Rightarrow> b = PosInf
      | Finite x \<Rightarrow> (case b of Finite y \<Rightarrow> x \<le> y | PosInf \<Rightarrow> True | _ \<Rightarrow> False))"

section \<open>ECMAScript values and the operators the accessory applies to them\<close>

text \<open>
  The values \<open>JSON.parse\<close> can return, the values the host passes to a set handler, and
  \<open>undefined\<close>. An object is the list of its own properties. Strings are sequences of
  8-bit characters.
\<close>

datatype jsval =
    JUndefined
  | JNull
  | JBool bool
  | JNum number
  | JStr string
  | JArr "jsval list"
  | JObj "(string \<times> jsval) list"

datatype error = TransportError string | TypeError | SyntaxError string

definition and_then :: "error + 'a \<Rightarrow> ('a \<Rightarrow> error + 'b) \<Rightarrow> error + 'b" where
  \<comment> \<open>sequencing of two steps, the first of which may throw\<close>
  "and_then m f = (case m of Inl e \<Rightarrow> Inl e | Inr x \<Rightarrow> f x)"

fun truthy :: "jsval \<Rightarrow> bool" where
  \<comment> \<open>ToBoolean\<close>
  "truthy JUndefined = False"
| "truthy JNull = False"
| "truthy (JBool b) = b"
| "truthy (JNum n) = (n \<noteq> Finite 0 \<and> n \<noteq> NaN)"
| "truthy (JStr s) = (s \<noteq> [])"
| "truthy (JArr xs) = True"
| "truthy (JObj kvs) = True"

definition js_or :: "jsval \<Rightarrow> jsval \<Rightarrow> jsval" where
  \<comment> \<open>\<open>a || b\<close>\<close>
  "js_or a b = (if truthy a then a else b)"

definition strict_equals_string :: "jsval \<Rightarrow> string \<Rightarrow> bool" where
  \<comment> \<open>\<open>v === 'literal'\<close>: no conversion, only the same string is equal\<close>
  "strict_equals_string v s = (case v of JStr t \<Rightarrow> t = s | _ \<Rightarrow> False)"

fun getProp :: "jsval \<Rightarrow> string \<Rightarrow> error + jsval" where
  \<comment> \<open>\<open>v.name\<close>, for a name that no built-in prototype defines (\<open>state\<close>, \<open>reported\<close>,
      \<open>light\<close> and \<open>brightness\<close> are such names): reading a property of \<open>undefined\<close> or
      \<open>null\<close> throws a TypeError, an object gives its own property or \<open>undefined\<close>, every
      other value gives \<open>undefined\<close>\<close>
  "getProp JUndefined name = Inl TypeError"
| "getProp JNull name = Inl TypeError"
| "getProp (JObj kvs) name =
     Inr (case map_of kvs name of Some v \<Rightarrow> v | None \<Rightarrow> JUndefined)"
| "getProp v name = Inr JUndefined"

text \<open>
  The parts of the language runtime that the accessory calls and that are not fixed here:
  \<open>JSON.parse\<close>, the conversion of a string to a Number (StringToNumber), the string an
  array converts to (\<open>Array.prototype.toString\<close>), and the decimal text of a Number that
  is not an integer below \<open>2 ^ 53\<close>.
\<close>

record runtime =
  JSON_parse :: "string \<Rightarrow> error + jsval"
  StringToNumber :: "string \<Rightarrow> number"
  ArrayToString :: "jsval list \<Rightarrow> string"
  NumberToString :: "rat \<Rightarrow> string"

fun ToNumber :: "runtime \<Rightarrow> jsval \<Rightarrow> error + number" where
  \<comment> \<open>the conversion \<open>/\<close> applies to its left operand. An object is converted through
      \<open>valueOf\<close>, which gives no primitive value, and then \<open>toString\<close>: the inherited
      method answers \<open>[object Object]\<close>, which is not a number; an own property
      \<open>toString\<close> hides it and is not callable, and then the conversion throws\<close>
  "ToNumber rt JUndefined = Inr NaN"
| "ToNumber rt JNull = Inr (Finite 0)"
| "ToNumber rt (JBool b) = Inr (Finite (if b then 1 else 0))"
| "ToNumber rt (JNum n) = Inr n"
| "ToNumber rt (JStr s) = Inr (StringToNumber rt s)"
| "ToNumber rt (JArr xs) = Inr (StringToNumber rt (ArrayToString rt xs))"
| "ToNumber rt (JObj kvs) =
     (if map_of kvs ''toString'' \<noteq> None then Inl TypeError else Inr NaN)"

section \<open>\<open>JSON.stringify\<close>\<close>

definition digit_char :: "nat \<Rightarrow> char" where
  "digit_char d = ''0123456789abcdef'' ! d"

fun digits_of :: "nat \<Rightarrow> string" where
  "digits_of n = (if n < 10 then [digit_char n] else digits_of (n div 10) @ [digit_char (n mod 10)])"

declare digits_of.simps [simp del]

definition number_text :: "runtime \<Rightarrow> rat \<Rightarrow> string" where
  \<comment> \<open>Number::toString writes the fewest digits that read back as the same Number: for
      an integer below \<open>2 ^ 53\<close> these are all its digits\<close>
  "number_text rt x =
     (if x = of_int \<lfloor>x\<rfloor> \<and> \<bar>x\<bar> < 2 ^ 53
      then (if x < 0 then ''-'' else []) @ digits_of (nat \<bar>\<lfloor>x\<rfloor>\<bar>)
      else NumberToString rt x)"

definition quote_char :: "char \<Rightarrow> string" where
  "quote_char c =
     (if c = CHR 0x22 then [CHR 0x5C, CHR 0x22]
      else if c = CHR 0x5C then [CHR 0x5C, CHR 0x5C]
      else if c = CHR 0x08 then [CHR 0x5C, CHR ''b'']
      else if c = CHR 0x09 then [CHR 0x5C, CHR ''t'']
      else if c = CHR 0x0A then [CHR 0x5C, CHR ''n'']
      else if c = CHR 0x0C then [CHR 0x5C, CHR ''f'']
      else if c = CHR 0x0D then [CHR 0x5C, CHR ''r'']
      else if (of_char c :: nat) < 32
        then [CHR 0x5C, CHR ''u'', CHR ''0'', CHR ''0'',
              digit_char (of_char c div 16), digit_char (of_char c mod 16)]
      else [c])"

definition QuoteJSONString :: "string \<Rightarrow> string" where
  "QuoteJSONString s = [CHR 0x22] @ concat (map quote_char s) @ [CHR 0x22]"

fun join_comma :: "string list \<Rightarrow> string" where
  "join_comma [] = []"
| "join_comma [t] = t"
| "join_comma (t # ts) = t @ '','' @ join_comma ts"

fun JSON_stringify :: "runtime \<Rightarrow> jsval \<Rightarrow> string option"
  and stringify_members :: "runtime \<Rightarrow> (string \<times> jsval) list \<Rightarrow> string list"
  and stringify_elements :: "runtime \<Rightarrow> jsval list \<Rightarrow> string list" where
  \<comment> \<open>\<open>None\<close> is the result \<open>undefined\<close>; a property whose value is \<open>undefined\<close> is left
      out, an array element that is \<open>undefined\<close> is written \<open>null\<close>, and so is a Number
      that is not finite\<close>
  "JSON_stringify rt JUndefined = None"
| "JSON_stringify rt JNull = Some ''null''"
| "JSON_stringify rt (JBool b) = Some (if b then ''true'' else ''false'')"
| "JSON_stringify rt (JNum n) =
     Some (case n of Finite x \<Rightarrow> number_text rt x | _ \<Rightarrow> ''null'')"
| "JSON_stringify rt (JStr s) = Some (QuoteJSONString s)"
| "JSON_stringify rt (JArr xs) = Some (''['' @ join_comma (stringify_elements rt xs) @ '']'')"
| "JSON_stringify rt (JObj kvs) = Some (''{'' @ join_comma (stringify_members rt kvs) @ ''}'')"
| "stringify_members rt [] = []"
| "stringify_members rt ((k, v) # kvs) =
     (case JSON_stringify rt v of
        None \<Rightarrow> stringify_members rt kvs
      | Some t \<Rightarrow> (QuoteJSONString k @ '':'' @ t) # stringify_members rt kvs)"
| "stringify_elements rt [] = []"
| "stringify_elements rt (x # xs) =
     (case JSON_stringify rt x of None \<Rightarrow> ''null'' | Some t \<Rightarrow> t) # stringify_elements rt xs"

section \<open>The accessory\<close>

text \<open>
  \<open>LightBulbPlatformAccessory\<close> holds the thing name of its device
  (\<open>accessory.context.device.uniqueId\<close>) and the client of the shadow service. A call of
  the client either rejects with an error or resolves; the response of a read carries the
  text of its payload (\<open>res.payload.toString()\<close>), or no payload. What an operation does
  to the outside is the list of its calls, in order, together with its result.
\<close>

record shadow_response =
  payload :: "string option"

record accessory =
  uniqueId :: string
  getThingShadow :: "string \<Rightarrow> error + shadow_response"
  updateThingShadow :: "string \<Rightarrow> string option \<Rightarrow> error + unit"

datatype event =
    ShadowRead string
  | ShadowWrite string "string option"
  | LogDebug string jsval

definition toNative :: "number \<Rightarrow> number" where
  \<comment> \<open>line 112: \<open>Math.round((value as number / 100) * 255)\<close>\<close>
  "toNative v = Math_round (js_mul (js_div v (Finite 100)) (Finite 255))"

definition toPercentage :: "number \<Rightarrow> number" where
  \<comment> \<open>line 142: \<open>Math.round((reportedBrightness / 255) * 100)\<close>\<close>
  "toPercentage v = Math_round (js_mul (js_div v (Finite 255)) (Finite 100))"

definition setOn :: "runtime \<Rightarrow> accessory \<Rightarrow> jsval \<Rightarrow> event list \<times> (error + unit)" where
  \<comment> \<open>\<open>platformAccessory.ts\<close>, lines 58 to 73: the write is awaited, then the value is logged\<close>
  "setOn rt acc v =
     (let thing = uniqueId acc;
          text = JSON_stringify rt
            (JObj [(''state'', JObj [(''desired'',
               JObj [(''light'', JStr (if truthy v then ''on'' else ''off''))])])])
      in case updateThingShadow acc thing text of
           Inl e \<Rightarrow> ([ShadowWrite thing text], Inl e)
         | Inr u \<Rightarrow>
             ([ShadowWrite thing text, LogDebug ''Set Characteristic On ->'' v], Inr ()))"

definition payload_text :: "shadow_response \<Rightarrow> error + string" where
  \<comment> \<open>\<open>res.payload!.toString()\<close>: without a payload, a method call on \<open>undefined\<close>\<close>
  "payload_text res = (case payload res of None \<Rightarrow> Inl TypeError | Some t \<Rightarrow> Inr t)"

definition getOn :: "runtime \<Rightarrow> accessory \<Rightarrow> event list \<times> (error + jsval)" where
  \<comment> \<open>lines 88 to 105\<close>
  "getOn rt acc =
     (let thing = uniqueId acc
      in case
           and_then (getThingShadow acc thing) (\<lambda>res.
           and_then (payload_text res) (\<lambda>text.
           and_then (JSON_parse rt text) (\<lambda>doc.
           and_then (getProp doc ''state'') (\<lambda>state.
           and_then (getProp state ''reported'') (\<lambda>reported.
           and_then (getProp reported ''light'') (\<lambda>light.
           Inr (JBool (strict_equals_string light ''on''))))))))
         of
           Inl e \<Rightarrow> ([ShadowRead thing], Inl e)
         | Inr lightStatus \<Rightarrow>
             ([ShadowRead thing, LogDebug ''Get Characteristic On ->'' lightStatus],
              Inr lightStatus))"

definition setBrightness ::
  "runtime \<Rightarrow> accessory \<Rightarrow> jsval \<Rightarrow> event list \<times> (error + unit)" where
  \<comment> \<open>lines 111 to 128: the value is converted and logged, then the write is awaited and
      its outcome is the outcome of the operation\<close>
  "setBrightness rt acc v =
     (case ToNumber rt v of
        Inl e \<Rightarrow> ([], Inl e)
      | Inr n \<Rightarrow>
          (let brightness = toNative n;
               thing = uniqueId acc;
               text = JSON_stringify rt
                 (JObj [(''state'', JObj [(''desired'',
                    JObj [(''brightness'', JNum brightness)])])])
           in ([LogDebug ''Set Characteristic Brightness -> '' v, ShadowWrite thing text],
               updateThingShadow acc thing text)))"

definition getBrightness :: "runtime \<Rightarrow> accessory \<Rightarrow> event list \<times> (error + jsval)" where
  \<comment> \<open>lines 134 to 147\<close>
  "getBrightness rt acc =
     (let thing = uniqueId acc
      in case
           and_then (getThingShadow acc thing) (\<lambda>res.
           and_then (payload_text res) (\<lambda>text.
           and_then (JSON_parse rt text) (\<lambda>doc.
           and_then (getProp doc ''state'') (\<lambda>state.
           and_then (getProp state ''reported'') (\<lambda>reported.
           and_then (getProp reported ''brightness'') (\<lambda>b.
           and_then (ToNumber rt (js_or b (JNum (Finite 0)))) (\<lambda>reportedBrightness.
           Inr (JNum (toPercentage reportedBrightness)))))))))
         of
           Inl e \<Rightarrow> ([ShadowRead thing], Inl e)
         | Inr brightness \<Rightarrow>
             ([ShadowRead thing, LogDebug ''Get Characteristic Brightness -> '' brightness],
              Inr brightness))"

section \<open>Vocabulary of the properties\<close>

fun shadow_writes :: "event list \<Rightarrow> (string \<times> string option) list" where
  "shadow_writes [] = []"
| "shadow_writes (ShadowWrite thing text # evs) = (thing, text) # shadow_writes evs"
| "shadow_writes (ev # evs) = shadow_writes evs"

fun shadow_reads :: "event list \<Rightarrow> string list" where
  "shadow_reads [] = []"
| "shadow_reads (ShadowRead thing # evs) = thing # shadow_reads evs"
| "shadow_reads (ev # evs) = shadow_reads evs"

definition read_document :: "runtime \<Rightarrow> accessory \<Rightarrow> error + jsval" where
  \<comment> \<open>the parsed payload of a shadow read of the accessory's thing\<close>
  "read_document rt acc =
     and_then (getThingShadow acc (uniqueId acc)) (\<lambda>res.
     and_then (payload_text res) (JSON_parse rt))"

definition read_reported :: "runtime \<Rightarrow> accessory \<Rightarrow> error + jsval" where
  \<comment> \<open>\<open>payload.state.reported\<close> of a shadow read\<close>
  "read_reported rt acc =
     and_then (read_document rt acc) (\<lambda>doc.
     and_then (getProp doc ''state'') (\<lambda>state. getProp state ''reported''))"

definition is_percentage :: "error + jsval \<Rightarrow> bool" where
  \<comment> \<open>the operation returned an integer Number between 0 and 100\<close>
  "is_percentage r =
     (case r of
        Inr (JNum (Finite x)) \<Rightarrow> x = of_int \<lfloor>x\<rfloor> \<and> 0 \<le> x \<and> x \<le> 100
      | _ \<Rightarrow> False)"

subsection \<open>Example devices\<close>

definition example_documents :: "(string \<times> jsval) list" where
  \<comment> \<open>some payload texts and the values \<open>JSON.parse\<close> gives for them\<close>
  \<open>example_documents =
     [(''{"state":{"reported":{"light":"on","brightness":200}}}'',
       JObj [(''state'', JObj [(''reported'',
         JObj [(''light'', JStr ''on''), (''brightness'', JNum (Finite 200))])])]),
      (''{"state":{"reported":{"light":"on","brightness":300}}}'',
       JObj [(''state'', JObj [(''reported'',
         JObj [(''light'', JStr ''on''), (''brightness'', JNum (Finite 300))])])]),
      (''{"state":{"reported":{"light":"off"}}}'',
       JObj [(''state'', JObj [(''reported'', JObj [(''light'', JStr ''off'')])])]),
      (''{"state":{"reported":{"brightness":200}}}'',
       JObj [(''state'', JObj [(''reported'', JObj [(''brightness'', JNum (Finite 200))])])]),
      (''{"state":{"reported":{"brightness":0}}}'',
       JObj [(''state'', JObj [(''reported'', JObj [(''brightness'', JNum (Finite 0))])])]),
      (''{"state":{"reported":{"brightness":""}}}'',
       JObj [(''state'', JObj [(''reported'', JObj [(''brightness'', JStr [])])])]),
      (''{"state":{}}'', JObj [(''state'', JObj [])]),
      (''{}'', JObj [])]\<close>

definition example_runtime :: runtime where
  \<comment> \<open>a runtime whose \<open>JSON.parse\<close> knows the example documents\<close>
  "example_runtime =
     \<lparr>JSON_parse = (\<lambda>t. case map_of example_documents t of
                             Some d \<Rightarrow> Inr d
                           | None \<Rightarrow> Inl (SyntaxError t)),
      StringToNumber = (\<lambda>s. NaN),
      ArrayToString = (\<lambda>xs. []),
      NumberToString = (\<lambda>x. [])\<rparr>"

definition example_accessory :: "string \<Rightarrow> accessory" where
  \<comment> \<open>a device whose shadow is read as the given payload text\<close>
  "example_accessory text =
     \<lparr>uniqueId = ''neopixel-1'',
      getThingShadow = (\<lambda>thing.
        if thing = ''neopixel-1'' then Inr \<lparr>payload = Some text\<rparr>
        else Inl (TransportError ''ResourceNotFoundException'')),
      updateThingShadow = (\<lambda>thing written.
        if thing = ''neopixel-1'' then Inr ()
        else Inl (TransportError ''ResourceNotFoundException''))\<rparr>"

definition read_failing_accessory :: accessory where
  \<comment> \<open>a device whose shadow cannot be read, and can be written\<close>
  "read_failing_accessory =
     \<lparr>uniqueId = ''neopixel-1'',
      getThingShadow = (\<lambda>thing. Inl (TransportError ''NetworkingError'')),
      updateThingShadow = (\<lambda>thing written. Inr ())\<rparr>"

definition write_failing_accessory :: accessory where
  \<comment> \<open>a device whose shadow can be read, and whose every write is refused\<close>
  \<open>write_failing_accessory =
     \<lparr>uniqueId = ''neopixel-1'',
      getThingShadow = (\<lambda>thing.
        Inr \<lparr>payload = Some ''{"state":{"reported":{"light":"off"}}}''\<rparr>),
      updateThingShadow = (\<lambda>thing written. Inl (TransportError ''ThrottlingException''))\<rparr>\<close>

definition unreachable_accessory :: accessory where
  \<comment> \<open>a device whose shadow service cannot be reached\<close>
  "unreachable_accessory =
     \<lparr>uniqueId = ''neopixel-1'',
      getThingShadow = (\<lambda>thing. Inl (TransportError ''NetworkingError'')),
      updateThingShadow = (\<lambda>thing written. Inl (TransportError ''NetworkingError''))\<rparr>"

section \<open>Rounding to binary64 is monotone\<close>

lemma round_half_even_of_int: "round_half_even (of_int n) = n"
  by (simp add: round_half_even_def)

lemma round_half_even_range:
  "\<lfloor>x\<rfloor> \<le> round_half_even x \<and> round_half_even x \<le> \<lfloor>x\<rfloor> + 1"
  by (simp add: round_half_even_def Let_def)

lemma round_half_even_mono:
  assumes "x \<le> y"
  shows "round_half_even x \<le> round_half_even y"
proof (cases "\<lfloor>x\<rfloor> = \<lfloor>y\<rfloor>")
  case True
  with assms show ?thesis
    by (auto simp add: round_half_even_def Let_def)
next
  case False
  with assms have "\<lfloor>x\<rfloor> < \<lfloor>y\<rfloor>"
    using floor_mono [of x y] by linarith
  then show ?thesis
    using round_half_even_range [of x] round_half_even_range [of y] by linarith
qed

lemma two_powi_nonneg: "0 \<le> k \<Longrightarrow> (2::rat) powi k = 2 ^ nat k"
  by (simp add: power_int_def)

lemma two_powi_neg: "0 \<le> k \<Longrightarrow> (2::rat) powi (- k) = 1 / 2 ^ nat k"
  by (simp add: power_int_minus_divide two_powi_nonneg)

lemma two_powi_shift: "(2::rat) powi (e + int n) = of_int (2 ^ n) * 2 powi e"
  by (simp add: power_int_add)

text \<open>The exponent of a positive rational is that of its binade.\<close>

lemma exponent_bounds_pos:
  assumes "0 < r"
  shows "2 powi exponent r \<le> r \<and> r < 2 powi (exponent r + 1)"
proof (cases "1 \<le> r")
  case True
  define n where "n = \<lfloor>r\<rfloor>"
  have n: "0 < n" using True by (simp add: n_def)
  have e: "exponent r = bitlen n - 1"
    using True assms by (simp add: exponent_def n_def)
  have b1: "1 \<le> bitlen n" using n by (simp add: bitlen_alt_def)
  from bitlen_bounds [OF n] have lo: "2 ^ nat (bitlen n - 1) \<le> n" and hi: "n < 2 ^ nat (bitlen n)"
    by simp_all
  have "(2::rat) powi (bitlen n - 1) = of_int (2 ^ nat (bitlen n - 1))"
    using b1 by (simp add: two_powi_nonneg)
  also have "\<dots> \<le> of_int n" using lo by (simp only: of_int_le_iff)
  also have "\<dots> \<le> r" by (simp add: n_def)
  finally have L: "2 powi exponent r \<le> r" by (simp add: e)
  have "n + 1 \<le> 2 ^ nat (bitlen n)" using hi by simp
  then have "(of_int (n + 1) :: rat) \<le> of_int (2 ^ nat (bitlen n))"
    by (simp only: of_int_le_iff)
  moreover have "r < of_int (n + 1)" using floor_correct [of r] by (simp add: n_def)
  moreover have "(2::rat) powi (bitlen n - 1 + 1) = of_int (2 ^ nat (bitlen n))"
    using b1 by (simp add: two_powi_nonneg)
  ultimately have "r < 2 powi (exponent r + 1)" by (simp add: e)
  with L show ?thesis by simp
next
  case False
  define m where "m = \<lceil>1 / r\<rceil> - 1"
  have y: "1 < 1 / r" using False assms by simp
  have m: "0 < m" using y by (simp add: m_def less_ceiling_iff)
  have e: "exponent r = - bitlen m"
    using False assms by (simp add: exponent_def m_def)
  have b1: "1 \<le> bitlen m" using m by (simp add: bitlen_alt_def)
  from bitlen_bounds [OF m] have lo: "2 ^ nat (bitlen m - 1) \<le> m" and hi: "m < 2 ^ nat (bitlen m)"
    by simp_all
  have my: "of_int m < 1 / r" "1 / r \<le> of_int (m + 1)"
    by (simp_all add: m_def ceiling_correct)
  have "m + 1 \<le> 2 ^ nat (bitlen m)" using hi by simp
  then have "(of_int (m + 1) :: rat) \<le> of_int (2 ^ nat (bitlen m))"
    by (simp only: of_int_le_iff)
  with my have "1 / r \<le> 2 ^ nat (bitlen m)" by simp
  then have "1 / 2 ^ nat (bitlen m) \<le> r"
    using assms by (simp add: field_simps)
  moreover have "(2::rat) powi (- bitlen m) = 1 / 2 ^ nat (bitlen m)"
    using b1 by (simp add: two_powi_neg)
  ultimately have L: "2 powi exponent r \<le> r" by (simp add: e)
  have "(of_int (2 ^ nat (bitlen m - 1)) :: rat) \<le> of_int m"
    using lo by (simp only: of_int_le_iff)
  then have "(2::rat) ^ nat (bitlen m - 1) \<le> of_int m" by simp
  with my have "2 ^ nat (bitlen m - 1) < 1 / r" by linarith
  then have "r < 1 / 2 ^ nat (bitlen m - 1)"
    using assms by (simp add: field_simps)
  moreover have "(2::rat) powi (- bitlen m + 1) = 1 / 2 ^ nat (bitlen m - 1)"
  proof -
    have "- bitlen m + 1 = - (bitlen m - 1)" by simp
    then show ?thesis using b1 two_powi_neg [of "bitlen m - 1"] by simp
  qed
  ultimately have "r < 2 powi (exponent r + 1)" by (simp add: e)
  with L show ?thesis by simp
qed

lemma exponent_mono:
  assumes "0 < r" "r \<le> s"
  shows "exponent r \<le> exponent s"
proof (rule ccontr)
  assume "\<not> exponent r \<le> exponent s"
  then have "exponent s + 1 \<le> exponent r" by simp
  then have "(2::rat) powi (exponent s + 1) \<le> 2 powi exponent r"
    by (intro power_int_increasing) simp_all
  moreover have "2 powi exponent r \<le> r" using exponent_bounds_pos [of r] assms by simp
  moreover have "s < 2 powi (exponent s + 1)" using exponent_bounds_pos [of s] assms by simp
  ultimately show False using assms by linarith
qed

lemma round_to_grid_pos:
  "0 < r \<Longrightarrow> round_to_grid r =
     of_int (round_half_even (r / 2 powi (grid_exponent r - 52))) * 2 powi (grid_exponent r - 52)"
  by (simp add: round_to_grid_def Let_def)

lemma round_to_grid_minus: "round_to_grid (- r) = - round_to_grid r"
  by (simp add: round_to_grid_def grid_exponent_def exponent_def Let_def)

lemma round_to_grid_nonneg:
  assumes "0 < r"
  shows "0 \<le> round_to_grid r"
proof -
  have "0 \<le> r / 2 powi (grid_exponent r - 52)" using assms by simp
  then have "0 \<le> \<lfloor>r / 2 powi (grid_exponent r - 52)\<rfloor>" by simp
  then have "0 \<le> round_half_even (r / 2 powi (grid_exponent r - 52))"
    using round_half_even_range [of "r / 2 powi (grid_exponent r - 52)"] by linarith
  then show ?thesis using assms by (simp add: round_to_grid_pos)
qed

lemma grid_bound_upper:
  assumes "0 < q" "x \<le> of_int k * q"
  shows "of_int (round_half_even (x / q)) * q \<le> of_int k * q"
proof -
  have "x / q \<le> of_int k" using assms by (simp add: field_simps)
  then have "round_half_even (x / q) \<le> round_half_even (of_int k)"
    by (rule round_half_even_mono)
  then have "round_half_even (x / q) \<le> k" by (simp only: round_half_even_of_int)
  then have "(of_int (round_half_even (x / q)) :: rat) \<le> of_int k"
    by (simp only: of_int_le_iff)
  then show ?thesis using assms(1) by (simp add: mult_right_mono)
qed

lemma grid_bound_lower:
  assumes "0 < q" "of_int k * q \<le> x"
  shows "of_int k * q \<le> of_int (round_half_even (x / q)) * q"
proof -
  have "of_int k \<le> x / q" using assms by (simp add: field_simps)
  then have "round_half_even (of_int k) \<le> round_half_even (x / q)"
    by (rule round_half_even_mono)
  then have "k \<le> round_half_even (x / q)" by (simp only: round_half_even_of_int)
  then have "(of_int k :: rat) \<le> of_int (round_half_even (x / q))"
    by (simp only: of_int_le_iff)
  then show ?thesis using assms(1) by (simp add: mult_right_mono)
qed

text \<open>A rounded value stays inside the closed binade of the value it comes from.\<close>

lemma round_to_grid_upper:
  assumes "0 < r"
  shows "round_to_grid r \<le> 2 powi (grid_exponent r + 1)"
proof -
  let ?q = "(2::rat) powi (grid_exponent r - 52)"
  have P: "2 powi (grid_exponent r + 1) = of_int (2 ^ 53) * ?q"
    using two_powi_shift [of "grid_exponent r - 52" 53] by (simp add: add.commute)
  have "r < 2 powi (exponent r + 1)" using exponent_bounds_pos [OF assms] by simp
  also have "\<dots> \<le> 2 powi (grid_exponent r + 1)"
    by (intro power_int_increasing) (simp_all add: grid_exponent_def)
  finally have "r \<le> of_int (2 ^ 53) * ?q" unfolding P by simp
  then have "of_int (round_half_even (r / ?q)) * ?q \<le> of_int (2 ^ 53) * ?q"
    by (intro grid_bound_upper) simp_all
  then show ?thesis unfolding P round_to_grid_pos [OF assms] .
qed

lemma round_to_grid_lower:
  assumes "0 < r" "- 1022 \<le> exponent r"
  shows "2 powi grid_exponent r \<le> round_to_grid r"
proof -
  let ?q = "(2::rat) powi (grid_exponent r - 52)"
  have ge: "grid_exponent r = exponent r" using assms by (simp add: grid_exponent_def)
  have P: "2 powi grid_exponent r = of_int (2 ^ 52) * ?q"
    using two_powi_shift [of "grid_exponent r - 52" 52] by simp
  have "2 powi grid_exponent r \<le> r" using exponent_bounds_pos [OF assms(1)] ge by simp
  then have "of_int (2 ^ 52) * ?q \<le> r" unfolding P .
  then have "of_int (2 ^ 52) * ?q \<le> of_int (round_half_even (r / ?q)) * ?q"
    by (intro grid_bound_lower) simp_all
  then show ?thesis unfolding P round_to_grid_pos [OF assms(1)] .
qed

lemma round_to_grid_mono_pos:
  assumes "0 < r" "r \<le> s"
  shows "round_to_grid r \<le> round_to_grid s"
proof -
  have s: "0 < s" using assms by simp
  have le: "grid_exponent r \<le> grid_exponent s"
    using exponent_mono [OF assms] by (simp add: grid_exponent_def)
  show ?thesis
  proof (cases "grid_exponent r = grid_exponent s")
    case True
    let ?q = "(2::rat) powi (grid_exponent s - 52)"
    have "r / ?q \<le> s / ?q" using assms by (simp add: divide_right_mono)
    then have "round_half_even (r / ?q) \<le> round_half_even (s / ?q)"
      by (rule round_half_even_mono)
    then have "(of_int (round_half_even (r / ?q)) :: rat) \<le> of_int (round_half_even (s / ?q))"
      by (simp only: of_int_le_iff)
    then have "of_int (round_half_even (r / ?q)) * ?q \<le> of_int (round_half_even (s / ?q)) * ?q"
      by (simp add: mult_right_mono)
    then show ?thesis using assms s True by (simp add: round_to_grid_pos)
  next
    case False
    with le have lt: "grid_exponent r + 1 \<le> grid_exponent s" by simp
    then have "- 1022 \<le> exponent s" by (simp add: grid_exponent_def)
    then have "2 powi grid_exponent s \<le> round_to_grid s"
      using round_to_grid_lower [OF s] by simp
    moreover have "(2::rat) powi (grid_exponent r + 1) \<le> 2 powi grid_exponent s"
      using lt by (intro power_int_increasing) simp_all
    moreover note round_to_grid_upper [OF assms(1)]
    ultimately show ?thesis by linarith
  qed
qed

lemma round_to_grid_mono:
  assumes "r \<le> s"
  shows "round_to_grid r \<le> round_to_grid s"
proof -
  consider "0 < r" | "r \<le> 0" "0 \<le> s" | "s < 0" using assms by linarith
  then show ?thesis
  proof cases
    case 1
    then show ?thesis using assms by (rule round_to_grid_mono_pos)
  next
    case 2
    have "round_to_grid r \<le> 0"
    proof (cases "r = 0")
      case True
      then show ?thesis by (simp add: round_to_grid_def)
    next
      case False
      with 2 have "0 < - r" by simp
      from round_to_grid_nonneg [OF this] show ?thesis by (simp add: round_to_grid_minus)
    qed
    moreover have "0 \<le> round_to_grid s"
    proof (cases "s = 0")
      case True
      then show ?thesis by (simp add: round_to_grid_def)
    next
      case False
      with 2 have "0 < s" by simp
      then show ?thesis by (rule round_to_grid_nonneg)
    qed
    ultimately show ?thesis by simp
  next
    case 3
    then have "0 < - s" "- s \<le> - r" using assms by simp_all
    from round_to_grid_mono_pos [OF this] show ?thesis by (simp add: round_to_grid_minus)
  qed
qed

lemma js_le_Finite [simp]: "js_le (Finite x) (Finite y) \<longleftrightarrow> x \<le> y"
  by (simp add: js_le_def)

lemma js_le_NaN [simp]: "\<not> js_le NaN b" "\<not> js_le a NaN"
  by (cases a; simp add: js_le_def)+

lemma js_le_PosInf [simp]: "js_le a PosInf \<longleftrightarrow> a \<noteq> NaN" "js_le PosInf b \<longleftrightarrow> b = PosInf"
  by (cases a; simp add: js_le_def)+

lemma js_le_NegInf [simp]: "js_le NegInf b \<longleftrightarrow> b \<noteq> NaN" "js_le a NegInf \<longleftrightarrow> a = NegInf"
  by (cases a; simp add: js_le_def)+

lemma to_double_not_NaN: "to_double r \<noteq> NaN"
  by (simp add: to_double_def Let_def)

lemma to_double_mono: "r \<le> s \<Longrightarrow> js_le (to_double r) (to_double s)"
  using round_to_grid_mono [of r s]
  by (auto simp add: to_double_def Let_def)

section \<open>The two conversions are monotone\<close>

lemma js_div_mono:
  assumes "js_le a b" "0 < c"
  shows "js_le (js_div a (Finite c)) (js_div b (Finite c))"
proof (cases a)
  case (Finite x)
  show ?thesis
  proof (cases b)
    case (Finite y)
    with \<open>a = Finite x\<close> assms have "x / c \<le> y / c"
      by (simp add: divide_right_mono)
    then show ?thesis using Finite \<open>a = Finite x\<close> assms
      by (simp add: js_div_def to_double_mono)
  qed (use Finite assms in \<open>simp_all add: js_div_def to_double_not_NaN\<close>)
next
  case NegInf
  then show ?thesis using assms
    by (cases b) (simp_all add: js_div_def to_double_not_NaN)
qed (use assms in \<open>simp_all add: js_div_def\<close>)

lemma js_mul_mono:
  assumes "js_le a b" "0 < c"
  shows "js_le (js_mul a (Finite c)) (js_mul b (Finite c))"
proof (cases a)
  case (Finite x)
  show ?thesis
  proof (cases b)
    case (Finite y)
    with \<open>a = Finite x\<close> assms have "x * c \<le> y * c"
      by (simp add: mult_right_mono)
    then show ?thesis using Finite \<open>a = Finite x\<close> assms
      by (simp add: js_mul_def to_double_mono)
  qed (use Finite assms in \<open>simp_all add: js_mul_def to_double_not_NaN\<close>)
next
  case NegInf
  then show ?thesis using assms
    by (cases b) (simp_all add: js_mul_def to_double_not_NaN)
qed (use assms in \<open>simp_all add: js_mul_def\<close>)

lemma Math_round_mono:
  assumes "js_le a b"
  shows "js_le (Math_round a) (Math_round b)"
  using assms
  by (cases a; cases b) (simp_all add: Math_round_def floor_mono)

lemma toNative_mono: "js_le a b \<Longrightarrow> js_le (toNative a) (toNative b)"
  unfolding toNative_def by (intro Math_round_mono js_mul_mono js_div_mono) simp_all

lemma toPercentage_mono: "js_le a b \<Longrightarrow> js_le (toPercentage a) (toPercentage b)"
  unfolding toPercentage_def by (intro Math_round_mono js_mul_mono js_div_mono) simp_all

section \<open>Values of the conversions\<close>

lemma floor_rat_numeral_div [simp]:
  "\<lfloor>numeral a / numeral b :: rat\<rfloor> = numeral a div numeral b"
  using floor_divide_of_int_eq [of "numeral a" "numeral b", where ?'a = rat] by simp

lemma floor_rat_one_div [simp]:
  "\<lfloor>1 / numeral b :: rat\<rfloor> = 1 div numeral b"
  using floor_divide_of_int_eq [of 1 "numeral b", where ?'a = rat] by simp

lemma floor_rat_neg_numeral_div [simp]:
  "\<lfloor>- (numeral a / numeral b) :: rat\<rfloor> = - numeral a div numeral b"
  using floor_divide_of_int_eq [of "- numeral a" "numeral b", where ?'a = rat] by simp

lemma ceiling_rat_numeral_div [simp]:
  "\<lceil>numeral a / numeral b :: rat\<rceil> = - (- numeral a div numeral b)"
  using floor_divide_of_int_eq [of "- numeral a" "numeral b", where ?'a = rat]
  by (simp add: ceiling_def)

lemmas number_eval =
  toNative_def toPercentage_def Math_round_def js_mul_def js_div_def to_double_def
  round_to_grid_def grid_exponent_def exponent_def round_half_even_def Let_def compute_bitlen

lemma toNative_0: "toNative (Finite 0) = Finite 0"
  by (simp add: number_eval)

lemma half_way_50: "js_mul (js_div (Finite 50) (Finite 100)) (Finite 255) = Finite (255 / 2)"
  by (simp add: number_eval)

lemma toNative_50: "toNative (Finite 50) = Finite 128"
  by (simp add: number_eval)

lemma toNative_100: "toNative (Finite 100) = Finite 255"
  by (simp add: number_eval)

lemma toPercentage_0: "toPercentage (Finite 0) = Finite 0"
  by (simp add: number_eval)


lemma toPercentage_255: "toPercentage (Finite 255) = Finite 100"
  by (simp add: number_eval)

lemma toPercentage_300: "toPercentage (Finite 300) = Finite 118"
  by (simp add: number_eval)

section \<open>The four operations\<close>

lemma and_then_simps [simp]:
  "and_then (Inl e) f = Inl e"
  "and_then (Inr x) f = f x"
  by (simp_all add: and_then_def)

lemma and_then_assoc: "and_then (and_then m f) g = and_then m (\<lambda>x. and_then (f x) g)"
  by (cases m) simp_all

lemma snd_getOn:
  "snd (getOn rt acc) =
     and_then (read_reported rt acc) (\<lambda>reported.
     and_then (getProp reported ''light'') (\<lambda>light.
     Inr (JBool (strict_equals_string light ''on''))))"
  by (simp add: getOn_def read_reported_def read_document_def and_then_assoc Let_def
      split: sum.splits)

lemma snd_getBrightness:
  "snd (getBrightness rt acc) =
     and_then (read_reported rt acc) (\<lambda>reported.
     and_then (getProp reported ''brightness'') (\<lambda>b.
     and_then (ToNumber rt (js_or b (JNum (Finite 0)))) (\<lambda>reportedBrightness.
     Inr (JNum (toPercentage reportedBrightness)))))"
  by (simp add: getBrightness_def read_reported_def read_document_def and_then_assoc Let_def
      split: sum.splits)

lemma getProp_present:
  "v \<noteq> JUndefined \<Longrightarrow> v \<noteq> JNull \<Longrightarrow> \<exists>w. getProp v name = Inr w"
  by (cases v) simp_all

lemma strict_equals_string_iff: "strict_equals_string v s \<longleftrightarrow> v = JStr s"
  by (cases v) (auto simp add: strict_equals_string_def)

lemma falsy_ToNumber:
  "\<not> truthy b \<Longrightarrow> ToNumber rt (js_or b (JNum (Finite 0))) = Inr (Finite 0)"
  by (simp add: js_or_def)

lemma read_example_document:
  "map_of example_documents text = Some d \<Longrightarrow>
     read_document example_runtime (example_accessory text) = Inr d"
  by (simp add: read_document_def example_runtime_def example_accessory_def payload_text_def)

lemma read_example_reported:
  "map_of example_documents text = Some (JObj [(''state'', JObj [(''reported'', reported)])]) \<Longrightarrow>
     read_reported example_runtime (example_accessory text) = Inr reported"
  by (simp add: read_reported_def read_example_document)

lemmas stringify_eval =
  QuoteJSONString_def quote_char_def number_text_def digits_of.simps digit_char_def

lemma Math_round_Finite:
  "Math_round a = Finite y \<Longrightarrow> y = of_int \<lfloor>y\<rfloor>"
  by (cases a) (auto simp add: Math_round_def)

lemma toNative_0_100:
  assumes "0 \<le> x" "x \<le> 100"
  shows "\<exists>k. toNative (Finite x) = Finite (of_int k) \<and> 0 \<le> k \<and> k \<le> 255"
proof -
  have lo: "js_le (Finite 0) (toNative (Finite x))"
    using toNative_mono [of "Finite 0" "Finite x"] assms by (simp add: toNative_0)
  have hi: "js_le (toNative (Finite x)) (Finite 255)"
    using toNative_mono [of "Finite x" "Finite 100"] assms by (simp add: toNative_100)
  from lo hi obtain y where y: "toNative (Finite x) = Finite y" "0 \<le> y" "y \<le> 255"
    by (cases "toNative (Finite x)") simp_all
  from y(1) have "y = of_int \<lfloor>y\<rfloor>"
    unfolding toNative_def by (rule Math_round_Finite)
  moreover have "0 \<le> \<lfloor>y\<rfloor>" "\<lfloor>y\<rfloor> \<le> 255" using y by (simp_all add: floor_le_iff)
  ultimately show ?thesis using y(1) by metis
qed

lemma toPercentage_0_255:
  assumes "0 \<le> x" "x \<le> 255"
  shows "\<exists>k. toPercentage (Finite x) = Finite (of_int k) \<and> 0 \<le> k \<and> k \<le> 100"
proof -
  have lo: "js_le (Finite 0) (toPercentage (Finite x))"
    using toPercentage_mono [of "Finite 0" "Finite x"] assms by (simp add: toPercentage_0)
  have hi: "js_le (toPercentage (Finite x)) (Finite 100)"
    using toPercentage_mono [of "Finite x" "Finite 255"] assms by (simp add: toPercentage_255)
  from lo hi obtain y where y: "toPercentage (Finite x) = Finite y" "0 \<le> y" "y \<le> 100"
    by (cases "toPercentage (Finite x)") simp_all
  from y(1) have "y = of_int \<lfloor>y\<rfloor>"
    unfolding toPercentage_def by (rule Math_round_Finite)
  moreover have "0 \<le> \<lfloor>y\<rfloor>" "\<lfloor>y\<rfloor> \<le> 100" using y by (simp_all add: floor_le_iff)
  ultimately show ?thesis using y(1) by metis
qed

section \<open>The claims\<close>

text \<open>
  C1. When a shadow read gives a document whose \<open>state.reported\<close> is present (any value
  but \<open>undefined\<close> and \<open>null\<close>), \<open>getOn\<close> returns a boolean and raises nothing: \<open>true\<close>
  exactly when \<open>reported.light\<close> is the string \<open>on\<close>, and \<open>false\<close> for every other value
  of the field, the absent field included.
\<close>

theorem getOn_reported_light:
  assumes "read_reported rt acc = Inr reported"
    and "reported \<noteq> JUndefined" and "reported \<noteq> JNull"
  shows "snd (getOn rt acc) = Inr (JBool (getProp reported ''light'' = Inr (JStr ''on'')))"
proof -
  obtain w where w: "getProp reported ''light'' = Inr w"
    using getProp_present [OF assms(2,3)] by blast
  then show ?thesis
    using assms(1) by (simp add: snd_getOn strict_equals_string_iff)
qed

theorem getOn_reported_light_witness:
  \<open>snd (getOn example_runtime
       (example_accessory ''{"state":{"reported":{"light":"on","brightness":200}}}''))
     = Inr (JBool True)
   \<and> snd (getOn example_runtime (example_accessory ''{"state":{"reported":{"light":"off"}}}''))
     = Inr (JBool False)
   \<and> snd (getOn example_runtime (example_accessory ''{"state":{"reported":{"brightness":200}}}''))
     = Inr (JBool False)\<close>
proof -
  have 1: \<open>read_reported example_runtime
      (example_accessory ''{"state":{"reported":{"light":"on","brightness":200}}}'')
      = Inr (JObj [(''light'', JStr ''on''), (''brightness'', JNum (Finite 200))])\<close>
    by (rule read_example_reported) (simp add: example_documents_def)
  have 2: \<open>read_reported example_runtime
      (example_accessory ''{"state":{"reported":{"light":"off"}}}'')
      = Inr (JObj [(''light'', JStr ''off'')])\<close>
    by (rule read_example_reported) (simp add: example_documents_def)
  have 3: \<open>read_reported example_runtime
      (example_accessory ''{"state":{"reported":{"brightness":200}}}'')
      = Inr (JObj [(''brightness'', JNum (Finite 200))])\<close>
    by (rule read_example_reported) (simp add: example_documents_def)
  show ?thesis
    using getOn_reported_light [OF 1] getOn_reported_light [OF 2] getOn_reported_light [OF 3]
    by simp
qed

text \<open>
  C2. \<open>setOn\<close> with the value \<open>true\<close> issues exactly one shadow write, of its own thing,
  and the payload is the text \<open>{"state":{"desired":{"light":"on"}}}\<close>: the only field of
  \<open>desired\<close> is \<open>light\<close>, there is no \<open>brightness\<close>. With the value \<open>false\<close> the text
  has \<open>off\<close> in the place of \<open>on\<close>. Neither call reads the shadow.
\<close>

theorem setOn_payload:
  \<open>shadow_writes (fst (setOn rt acc (JBool True))) =
     [(uniqueId acc, Some ''{"state":{"desired":{"light":"on"}}}'')]
   \<and> shadow_writes (fst (setOn rt acc (JBool False))) =
     [(uniqueId acc, Some ''{"state":{"desired":{"light":"off"}}}'')]
   \<and> shadow_reads (fst (setOn rt acc (JBool b))) = []\<close>
  by (simp add: setOn_def Let_def stringify_eval split: sum.splits)

text \<open>
  C3. \<open>setBrightness\<close> with the value 50 issues exactly one shadow write, whose payload
  is the text \<open>{"state":{"desired":{"brightness":128}}}\<close>: the product is exactly the
  half-way value 127.5, it is rounded upward to the native value 128, and the payload has
  no \<open>light\<close> field.
\<close>

theorem setBrightness_50:
  \<open>js_mul (js_div (Finite 50) (Finite 100)) (Finite 255) = Finite (255 / 2)
   \<and> toNative (Finite 50) = Finite 128
   \<and> shadow_writes (fst (setBrightness rt acc (JNum (Finite 50)))) =
     [(uniqueId acc, Some ''{"state":{"desired":{"brightness":128}}}'')]
   \<and> shadow_reads (fst (setBrightness rt acc (JNum (Finite 50)))) = []\<close>
  by (simp add: setBrightness_def Let_def toNative_50 half_way_50 stringify_eval)

text \<open>
  C4. When a shadow read gives a document whose \<open>state.reported\<close> is present and has no
  \<open>brightness\<close>, \<open>getBrightness\<close> returns the Number 0 and raises nothing.
\<close>

theorem getBrightness_absent:
  assumes "read_reported rt acc = Inr reported"
    and "reported \<noteq> JUndefined" and "reported \<noteq> JNull"
    and "getProp reported ''brightness'' = Inr JUndefined"
  shows "snd (getBrightness rt acc) = Inr (JNum (Finite 0))"
  using assms by (simp add: snd_getBrightness js_or_def toPercentage_0)

theorem getBrightness_absent_witness:
  \<open>snd (getBrightness example_runtime
       (example_accessory ''{"state":{"reported":{"light":"off"}}}''))
     = Inr (JNum (Finite 0))\<close>
proof -
  have \<open>read_reported example_runtime
      (example_accessory ''{"state":{"reported":{"light":"off"}}}'')
      = Inr (JObj [(''light'', JStr ''off'')])\<close>
    by (rule read_example_reported) (simp add: example_documents_def)
  then show ?thesis by (rule getBrightness_absent) simp_all
qed

text \<open>
  C5. On the percentages 0, 1, ..., 100 the conversion \<open>toNative\<close> of \<open>setBrightness\<close>,
  \<open>Math.round((p / 100) * 255)\<close> in binary64 arithmetic, is monotonic non-decreasing, its
  values are integers between 0 and 255, and it is exact at the two ends:
  \<open>toNative 0 = 0\<close> and \<open>toNative 100 = 255\<close>. The value it gives is the brightness that
  \<open>setBrightness\<close> writes.
\<close>

theorem toNative_monotone_exact:
  fixes p q :: int
  assumes "0 \<le> p" and "p \<le> q" and "q \<le> 100"
  shows "js_le (toNative (Finite (of_int p))) (toNative (Finite (of_int q)))
    \<and> (\<exists>k. toNative (Finite (of_int p)) = Finite (of_int k) \<and> 0 \<le> k \<and> k \<le> 255)
    \<and> toNative (Finite 0) = Finite 0
    \<and> toNative (Finite 100) = Finite 255
    \<and> shadow_writes (fst (setBrightness rt acc (JNum (Finite (of_int p))))) =
        [(uniqueId acc, JSON_stringify rt (JObj [(''state'', JObj [(''desired'',
           JObj [(''brightness'', JNum (toNative (Finite (of_int p))))])])]))]"
proof -
  have "js_le (toNative (Finite (of_int p))) (toNative (Finite (of_int q)))"
    using assms by (intro toNative_mono) simp
  moreover have "\<exists>k. toNative (Finite (of_int p)) = Finite (of_int k) \<and> 0 \<le> k \<and> k \<le> 255"
    using assms by (intro toNative_0_100) simp_all
  moreover have "shadow_writes (fst (setBrightness rt acc (JNum (Finite (of_int p))))) =
        [(uniqueId acc, JSON_stringify rt (JObj [(''state'', JObj [(''desired'',
           JObj [(''brightness'', JNum (toNative (Finite (of_int p))))])])]))]"
    by (simp add: setBrightness_def Let_def)
  ultimately show ?thesis by (simp add: toNative_0 toNative_100)
qed

theorem toNative_monotone_exact_witness:
  \<open>js_le (toNative (Finite 10)) (toNative (Finite 30))
    \<and> (\<exists>k. toNative (Finite 10) = Finite (of_int k) \<and> 0 \<le> k \<and> k \<le> 255)
    \<and> toNative (Finite 0) = Finite 0
    \<and> toNative (Finite 100) = Finite 255
    \<and> shadow_writes (fst (setBrightness example_runtime unreachable_accessory (JNum (Finite 10)))) =
        [(''neopixel-1'', JSON_stringify example_runtime (JObj [(''state'', JObj [(''desired'',
           JObj [(''brightness'', JNum (toNative (Finite 10)))])])]))]\<close>
proof -
  have "(0::int) \<le> 10" and "(10::int) \<le> 30" and "(30::int) \<le> 100" by simp_all
  from toNative_monotone_exact [OF this, of example_runtime unreachable_accessory]
  have "js_le (toNative (Finite 10)) (toNative (Finite 30))
    \<and> (\<exists>k. toNative (Finite 10) = Finite (of_int k) \<and> 0 \<le> k \<and> k \<le> 255)
    \<and> toNative (Finite 0) = Finite 0
    \<and> toNative (Finite 100) = Finite 255
    \<and> shadow_writes (fst (setBrightness example_runtime unreachable_accessory (JNum (Finite 10)))) =
        [(uniqueId unreachable_accessory,
          JSON_stringify example_runtime (JObj [(''state'', JObj [(''desired'',
           JObj [(''brightness'', JNum (toNative (Finite 10)))])])]))]"
    unfolding of_int_numeral .
  moreover have "uniqueId unreachable_accessory = ''neopixel-1''"
    by (simp add: unreachable_accessory_def)
  ultimately show ?thesis by (simp only:)
qed



text \<open>
  C7. Each operation passes a failure of its transport call on, unchanged, after that one
  call: no retry, nothing caught, no default value. When the shadow read of the
  accessory's thing fails with an error, \<open>getOn\<close> and \<open>getBrightness\<close> fail with that
  error. When the write that \<open>setOn\<close> issues fails with an error, \<open>setOn\<close> fails with
  that error; and so does \<open>setBrightness\<close> with the write it issues, for a value that
  converts to a Number. The three failures are independent of each other.
\<close>

theorem transport_error_propagates:
  "(getThingShadow acc (uniqueId acc) = Inl e_read \<longrightarrow>
      getOn rt acc = ([ShadowRead (uniqueId acc)], Inl e_read)
      \<and> getBrightness rt acc = ([ShadowRead (uniqueId acc)], Inl e_read))
   \<and> (updateThingShadow acc (uniqueId acc)
        (JSON_stringify rt (JObj [(''state'', JObj [(''desired'',
           JObj [(''light'', JStr (if truthy v then ''on'' else ''off''))])])]))
        = Inl e_on \<longrightarrow>
      setOn rt acc v =
        ([ShadowWrite (uniqueId acc)
            (JSON_stringify rt (JObj [(''state'', JObj [(''desired'',
               JObj [(''light'', JStr (if truthy v then ''on'' else ''off''))])])]))],
         Inl e_on))
   \<and> (ToNumber rt w = Inr n
      \<and> updateThingShadow acc (uniqueId acc)
        (JSON_stringify rt (JObj [(''state'', JObj [(''desired'',
           JObj [(''brightness'', JNum (toNative n))])])]))
        = Inl e_brightness \<longrightarrow>
      setBrightness rt acc w =
        ([LogDebug ''Set Characteristic Brightness -> '' w,
          ShadowWrite (uniqueId acc)
            (JSON_stringify rt (JObj [(''state'', JObj [(''desired'',
               JObj [(''brightness'', JNum (toNative n))])])]))],
         Inl e_brightness))"
proof (intro conjI impI)
  assume "getThingShadow acc (uniqueId acc) = Inl e_read"
  then show "getOn rt acc = ([ShadowRead (uniqueId acc)], Inl e_read)"
    by (simp add: getOn_def Let_def)
next
  assume "getThingShadow acc (uniqueId acc) = Inl e_read"
  then show "getBrightness rt acc = ([ShadowRead (uniqueId acc)], Inl e_read)"
    by (simp add: getBrightness_def Let_def)
next
  assume "updateThingShadow acc (uniqueId acc)
      (JSON_stringify rt (JObj [(''state'', JObj [(''desired'',
         JObj [(''light'', JStr (if truthy v then ''on'' else ''off''))])])]))
      = Inl e_on"
  then show "setOn rt acc v =
      ([ShadowWrite (uniqueId acc)
          (JSON_stringify rt (JObj [(''state'', JObj [(''desired'',
             JObj [(''light'', JStr (if truthy v then ''on'' else ''off''))])])]))],
       Inl e_on)"
    unfolding setOn_def Let_def by (simp only: sum.case)
next
  assume "ToNumber rt w = Inr n
      \<and> updateThingShadow acc (uniqueId acc)
        (JSON_stringify rt (JObj [(''state'', JObj [(''desired'',
           JObj [(''brightness'', JNum (toNative n))])])]))
        = Inl e_brightness"
  then show "setBrightness rt acc w =
      ([LogDebug ''Set Characteristic Brightness -> '' w,
        ShadowWrite (uniqueId acc)
          (JSON_stringify rt (JObj [(''state'', JObj [(''desired'',
             JObj [(''brightness'', JNum (toNative n))])])]))],
       Inl e_brightness)"
    unfolding setBrightness_def Let_def by (simp only: sum.case)
qed

theorem transport_error_propagates_witness:
  \<open>getOn example_runtime read_failing_accessory
     = ([ShadowRead ''neopixel-1''], Inl (TransportError ''NetworkingError''))
   \<and> getBrightness example_runtime read_failing_accessory
     = ([ShadowRead ''neopixel-1''], Inl (TransportError ''NetworkingError''))
   \<and> setOn example_runtime write_failing_accessory (JBool True)
     = ([ShadowWrite ''neopixel-1'' (Some ''{"state":{"desired":{"light":"on"}}}'')],
        Inl (TransportError ''ThrottlingException''))
   \<and> setBrightness example_runtime write_failing_accessory (JNum (Finite 50))
     = ([LogDebug ''Set Characteristic Brightness -> '' (JNum (Finite 50)),
         ShadowWrite ''neopixel-1'' (Some ''{"state":{"desired":{"brightness":128}}}'')],
        Inl (TransportError ''ThrottlingException''))\<close>
proof -
  have r: "getThingShadow read_failing_accessory (uniqueId read_failing_accessory)
      = Inl (TransportError ''NetworkingError'')"
    by (simp add: read_failing_accessory_def)
  have ur: "uniqueId read_failing_accessory = ''neopixel-1''"
    by (simp add: read_failing_accessory_def)
  have w: "updateThingShadow write_failing_accessory (uniqueId write_failing_accessory) written
      = Inl (TransportError ''ThrottlingException'')" for written
    by (simp add: write_failing_accessory_def)
  have uw: "uniqueId write_failing_accessory = ''neopixel-1''"
    by (simp add: write_failing_accessory_def)
  have n: "ToNumber example_runtime (JNum (Finite 50)) = Inr (Finite 50)" by simp
  have t_on: \<open>JSON_stringify example_runtime (JObj [(''state'', JObj [(''desired'',
      JObj [(''light'', JStr (if truthy (JBool True) then ''on'' else ''off''))])])])
      = Some ''{"state":{"desired":{"light":"on"}}}''\<close>
    by (simp add: stringify_eval)
  have t_50: \<open>JSON_stringify example_runtime (JObj [(''state'', JObj [(''desired'',
      JObj [(''brightness'', JNum (toNative (Finite 50)))])])])
      = Some ''{"state":{"desired":{"brightness":128}}}''\<close>
    by (simp add: toNative_50 stringify_eval)
  from transport_error_propagates
    [where acc = read_failing_accessory and rt = example_runtime
       and e_read = "TransportError ''NetworkingError''"] r
  have 1: "getOn example_runtime read_failing_accessory
      = ([ShadowRead (uniqueId read_failing_accessory)], Inl (TransportError ''NetworkingError''))
    \<and> getBrightness example_runtime read_failing_accessory
      = ([ShadowRead (uniqueId read_failing_accessory)], Inl (TransportError ''NetworkingError''))"
    by blast
  from transport_error_propagates
    [where acc = write_failing_accessory and rt = example_runtime and v = "JBool True"
       and e_on = "TransportError ''ThrottlingException''"] w
  have 2: "setOn example_runtime write_failing_accessory (JBool True) =
      ([ShadowWrite (uniqueId write_failing_accessory)
          (JSON_stringify example_runtime (JObj [(''state'', JObj [(''desired'',
             JObj [(''light'', JStr (if truthy (JBool True) then ''on'' else ''off''))])])]))],
       Inl (TransportError ''ThrottlingException''))"
    by blast
  from transport_error_propagates
    [where acc = write_failing_accessory and rt = example_runtime
       and w = "JNum (Finite 50)" and n = "Finite 50"
       and e_brightness = "TransportError ''ThrottlingException''"] n w
  have 3: "setBrightness example_runtime write_failing_accessory (JNum (Finite 50)) =
      ([LogDebug ''Set Characteristic Brightness -> '' (JNum (Finite 50)),
        ShadowWrite (uniqueId write_failing_accessory)
          (JSON_stringify example_runtime (JObj [(''state'', JObj [(''desired'',
             JObj [(''brightness'', JNum (toNative (Finite 50)))])])]))],
       Inl (TransportError ''ThrottlingException''))"
    by blast
  from 1 2 3 show ?thesis unfolding ur uw t_on t_50 by (intro conjI) simp_all
qed

text \<open>
  C8, as stated: after every successful shadow read \<open>getBrightness\<close> returns an integer
  percentage between 0 and 100. A reported brightness of 300 is converted as it is, to
  118.
\<close>

theorem getBrightness_out_of_range:
  \<open>\<not> is_percentage (snd (getBrightness example_runtime
       (example_accessory ''{"state":{"reported":{"light":"on","brightness":300}}}'')))\<close>
proof -
  have \<open>read_reported example_runtime
      (example_accessory ''{"state":{"reported":{"light":"on","brightness":300}}}'')
      = Inr (JObj [(''light'', JStr ''on''), (''brightness'', JNum (Finite 300))])\<close>
    by (rule read_example_reported) (simp add: example_documents_def)
  then have \<open>snd (getBrightness example_runtime
      (example_accessory ''{"state":{"reported":{"light":"on","brightness":300}}}''))
      = Inr (JNum (Finite 118))\<close>
    by (simp add: snd_getBrightness js_or_def toPercentage_300)
  then show ?thesis by (simp add: is_percentage_def)
qed

text \<open>
  C8, amended: after a successful shadow read in which \<open>reported.brightness\<close> is absent
  (or another falsy value) or is a Number between 0 and 255, \<open>getBrightness\<close> returns an
  integer percentage between 0 and 100.
\<close>

theorem getBrightness_percentage:
  assumes "read_reported rt acc = Inr reported"
    and "getProp reported ''brightness'' = Inr b"
    and "\<not> truthy b \<or> b = JNum (Finite x) \<and> 0 \<le> x \<and> x \<le> 255"
  shows "is_percentage (snd (getBrightness rt acc))"
proof (cases "truthy b")
  case False
  then show ?thesis
    using assms(1,2)
    by (simp add: snd_getBrightness falsy_ToNumber toPercentage_0 is_percentage_def)
next
  case True
  with assms(3) have b: "b = JNum (Finite x)" and x: "0 \<le> x" "x \<le> 255" by simp_all
  from toPercentage_0_255 [OF x] obtain k
    where k: "toPercentage (Finite x) = Finite (of_int k)" "0 \<le> k" "k \<le> 100" by blast
  have "snd (getBrightness rt acc) = Inr (JNum (Finite (of_int k)))"
    using assms(1,2) True b k(1) by (simp add: snd_getBrightness js_or_def)
  then show ?thesis using k(2,3) by (simp add: is_percentage_def)
qed

theorem getBrightness_percentage_witness:
  \<open>is_percentage (snd (getBrightness example_runtime
       (example_accessory ''{"state":{"reported":{"light":"on","brightness":200}}}'')))\<close>
proof -
  let ?rep = "JObj [(''light'', JStr ''on''), (''brightness'', JNum (Finite 200))]"
  have 1: \<open>read_reported example_runtime
      (example_accessory ''{"state":{"reported":{"light":"on","brightness":200}}}'')
      = Inr ?rep\<close>
    by (rule read_example_reported) (simp add: example_documents_def)
  have 2: "getProp ?rep ''brightness'' = Inr (JNum (Finite 200))" by simp
  have 3: "\<not> truthy (JNum (Finite 200))
      \<or> JNum (Finite 200) = JNum (Finite 200) \<and> (0::rat) \<le> 200 \<and> (200::rat) \<le> 255"
    by simp
  show ?thesis by (rule getBrightness_percentage [OF 1 2 3])
qed

text \<open>
  C9. When a shadow read gives a document that has no \<open>state\<close>, or whose \<open>state\<close> has no
  \<open>reported\<close> (or has \<open>null\<close> in the place of either), both \<open>getOn\<close> and
  \<open>getBrightness\<close> fail with a TypeError: they do not return \<open>false\<close> and 0.
\<close>

theorem missing_subtree_TypeError:
  assumes "read_document rt acc = Inr doc"
    and "getProp doc ''state'' = Inr state"
    and "state = JUndefined \<or> state = JNull
      \<or> getProp state ''reported'' = Inr JUndefined \<or> getProp state ''reported'' = Inr JNull"
  shows "snd (getOn rt acc) = Inl TypeError \<and> snd (getBrightness rt acc) = Inl TypeError"
  using assms by (auto simp add: snd_getOn snd_getBrightness read_reported_def)

theorem missing_subtree_TypeError_witness:
  \<open>snd (getOn example_runtime (example_accessory ''{"state":{}}'')) = Inl TypeError
   \<and> snd (getBrightness example_runtime (example_accessory ''{"state":{}}'')) = Inl TypeError
   \<and> snd (getOn example_runtime (example_accessory ''{}'')) = Inl TypeError
   \<and> snd (getBrightness example_runtime (example_accessory ''{}'')) = Inl TypeError\<close>
proof -
  have a: \<open>read_document example_runtime (example_accessory ''{"state":{}}'')
      = Inr (JObj [(''state'', JObj [])])\<close>
    by (rule read_example_document) (simp add: example_documents_def)
  have b: \<open>read_document example_runtime (example_accessory ''{}'') = Inr (JObj [])\<close>
    by (rule read_example_document) (simp add: example_documents_def)
  have 1: "getProp (JObj [(''state'', JObj [])]) ''state'' = Inr (JObj [])" by simp
  have 2: "JObj [] = JUndefined \<or> JObj [] = JNull
      \<or> getProp (JObj []) ''reported'' = Inr JUndefined
      \<or> getProp (JObj []) ''reported'' = Inr JNull"
    by simp
  have 3: "getProp (JObj []) ''state'' = Inr JUndefined" by simp
  have 4: "JUndefined = JUndefined \<or> JUndefined = JNull
      \<or> getProp JUndefined ''reported'' = Inr JUndefined
      \<or> getProp JUndefined ''reported'' = Inr JNull"
    by simp
  show ?thesis
    using missing_subtree_TypeError [OF a 1 2] missing_subtree_TypeError [OF b 3 4] by simp
qed

text \<open>
  C10. \<open>getBrightness\<close> does not tell an absent \<open>reported.brightness\<close> from a present 0:
  for every falsy value of the field (\<open>undefined\<close>, 0, \<open>null\<close>, \<open>false\<close>, the empty
  string) the native value that is converted is 0 and the operation returns 0.
\<close>

theorem getBrightness_falsy:
  assumes "read_reported rt acc = Inr reported"
    and "getProp reported ''brightness'' = Inr b"
    and "\<not> truthy b"
  shows "ToNumber rt (js_or b (JNum (Finite 0))) = Inr (Finite 0)
    \<and> snd (getBrightness rt acc) = Inr (JNum (Finite 0))
    \<and> \<not> truthy JUndefined \<and> \<not> truthy (JNum (Finite 0)) \<and> \<not> truthy JNull
    \<and> \<not> truthy (JBool False) \<and> \<not> truthy (JStr [])"
  using assms by (simp add: snd_getBrightness falsy_ToNumber toPercentage_0)

theorem getBrightness_falsy_witness:
  \<open>snd (getBrightness example_runtime
       (example_accessory ''{"state":{"reported":{"brightness":0}}}''))
     = Inr (JNum (Finite 0))
   \<and> snd (getBrightness example_runtime
       (example_accessory ''{"state":{"reported":{"brightness":""}}}''))
     = Inr (JNum (Finite 0))
   \<and> snd (getBrightness example_runtime
       (example_accessory ''{"state":{"reported":{"light":"off"}}}''))
     = Inr (JNum (Finite 0))\<close>
proof -
  have a: \<open>read_reported example_runtime
      (example_accessory ''{"state":{"reported":{"brightness":0}}}'')
      = Inr (JObj [(''brightness'', JNum (Finite 0))])\<close>
    by (rule read_example_reported) (simp add: example_documents_def)
  have b: \<open>read_reported example_runtime
      (example_accessory ''{"state":{"reported":{"brightness":""}}}'')
      = Inr (JObj [(''brightness'', JStr [])])\<close>
    by (rule read_example_reported) (simp add: example_documents_def)
  have c: \<open>read_reported example_runtime
      (example_accessory ''{"state":{"reported":{"light":"off"}}}'')
      = Inr (JObj [(''light'', JStr ''off'')])\<close>
    by (rule read_example_reported) (simp add: example_documents_def)
  have 1: "getProp (JObj [(''brightness'', JNum (Finite 0))]) ''brightness''
      = Inr (JNum (Finite 0))"
    by simp
  have 2: "getProp (JObj [(''brightness'', JStr [])]) ''brightness'' = Inr (JStr [])" by simp
  have 3: "getProp (JObj [(''light'', JStr ''off'')]) ''brightness'' = Inr JUndefined" by simp
  have f: "\<not> truthy (JNum (Finite 0))" "\<not> truthy (JStr [])" "\<not> truthy JUndefined" by simp_all
  show ?thesis
    using getBrightness_falsy [OF a 1 f(1)] getBrightness_falsy [OF b 2 f(2)]
      getBrightness_falsy [OF c 3 f(3)]
    by simp
qed

end
